theory Spec2Isabelle
  imports Main
begin

section \<open>The Toolbar component (frontend/lib/src/components/shared/Toolbar/Toolbar.tsx)\<close>

text \<open>
  The file holds two React function components, \<open>ToolbarAction\<close> and \<open>Toolbar\<close>.
  A component is a function from its props (and the values its hooks return) to the
  element tree it renders. The embedding keeps that shape: props are records, an
  optional prop is an \<open>option\<close> (\<open>None\<close> is JavaScript's \<open>undefined\<close>), the
  rendered JSX is a record per tag, and a render that throws returns \<open>Inl\<close>.
\<close>

subsection \<open>JavaScript values and operators used by the components\<close>

text \<open>
  How a call ends: it returns, or it throws. Either way it leaves a state behind.
\<close>

datatype 'a completion = Returns 'a | Throws 'a

fun completion_state :: "'a completion \<Rightarrow> 'a" where
  "completion_state (Returns a) = a"
| "completion_state (Throws a) = a"

text \<open>
  A callback \<open>() => void\<close> takes no argument and returns nothing: all it does is
  change the world outside the component, whose state is the type parameter \<open>'w\<close>,
  and it may throw instead of returning.
\<close>

type_synonym 'w callback = "'w \<Rightarrow> 'w completion"

text \<open>The callback that runs \<open>g\<close> on the world and returns.\<close>

definition returning :: "('w \<Rightarrow> 'w) \<Rightarrow> 'w callback" where
  "returning g w = Returns (g w)"

text \<open>
  The click event handed to a handler. \<open>event.stopPropagation()\<close> sets a flag on
  the event that the dispatcher reads before it calls the next handler.
\<close>

record SyntheticEvent =
  propagationStopped :: bool

definition stopPropagation :: "SyntheticEvent \<Rightarrow> SyntheticEvent" where
  "stopPropagation event = event\<lparr>propagationStopped := True\<rparr>"

type_synonym 'w handler = "SyntheticEvent \<Rightarrow> 'w \<Rightarrow> (SyntheticEvent \<times> 'w) completion"

text \<open>Truthiness of an optional boolean: \<open>undefined\<close> and \<open>false\<close> are falsy.\<close>

definition truthy :: "bool option \<Rightarrow> bool" where
  "truthy b = (case b of None \<Rightarrow> False | Some v \<Rightarrow> v)"

text \<open>
  \<open>a || b\<close> on values that are a function or \<open>undefined\<close>: a function is always
  truthy, so the left operand is the result whenever it is defined.
\<close>

definition js_or :: "'a option \<Rightarrow> 'a option \<Rightarrow> 'a option" where
  "js_or a b = (case a of Some f \<Rightarrow> Some f | None \<Rightarrow> b)"

text \<open>\<open>a ?? b\<close>: the right operand only when the left one is \<open>undefined\<close>.\<close>

definition nullish :: "'a option \<Rightarrow> 'a \<Rightarrow> 'a" where
  "nullish a b = (case a of Some v \<Rightarrow> v | None \<Rightarrow> b)"

text \<open>
  The value of a JSX child expression \<open>{e}\<close>. The components build their children
  with \<open>&&\<close>, whose value is the first falsy operand (here \<open>undefined\<close>, \<open>false\<close> or
  the empty string) or else the last operand (an element).
\<close>

datatype 'e jsx_child = JUndefined | JBool bool | JString string | JElement 'e

text \<open>
  What React mounts for a child value: nothing for \<open>undefined\<close>, a boolean or the
  empty string, a text node for any other string, the element otherwise.
\<close>

datatype 'e react_node = TextNode string | ElementNode 'e

fun react_child :: "'e jsx_child \<Rightarrow> 'e react_node list" where
  "react_child JUndefined = []"
| "react_child (JBool b) = []"
| "react_child (JString s) = (if s = [] then [] else [TextNode s])"
| "react_child (JElement e) = [ElementNode e]"

definition react_children :: "'e jsx_child list \<Rightarrow> 'e react_node list" where
  "react_children cs = concat (map react_child cs)"

subsection \<open>Imported names\<close>

text \<open>
  The two icons imported from the icon package; any other icon a caller passes to
  \<open>ToolbarAction\<close> is an \<open>OtherIcon\<close>.
\<close>

datatype EmotionIcon = Fullscreen | FullscreenExit | OtherIcon string

text \<open>The members of the imported enumerations that this file uses.\<close>

datatype Placement = TOP

datatype BaseButtonKind = ELEMENT_TOOLBAR

text \<open>The part of the theme that \<open>ToolbarAction\<close> reads: \<open>theme.fontSizes.sm\<close>.\<close>

record EmotionTheme =
  fontSizes_sm :: string

subsection \<open>ToolbarAction\<close>

record 'w ToolbarActionProps =
  label :: string
  icon :: "EmotionIcon option"
  show_label :: "bool option"
  onClick :: "'w callback option"

text \<open>
  The interface declares \<open>onClick\<close> as required; the click handler nevertheless
  tests it before the call, so the field is optional here and the handler keeps
  both branches.
\<close>

text \<open>The props of the elements that \<open>ToolbarAction\<close> renders, one record per tag.\<close>

record StreamlitMarkdownProps =
  source :: string
  allowHTML :: bool
  style_fontSize :: string

record IconProps =
  Icon_content :: EmotionIcon
  Icon_size :: string
  Icon_testid :: string

datatype ButtonChild = Icon IconProps | Span string

record 'w ButtonProps =
  Button_onClick :: "'w handler"
  Button_kind :: BaseButtonKind
  Button_aria_label :: string
  Button_children :: "ButtonChild jsx_child list"

record 'w TooltipProps =
  Tooltip_content :: StreamlitMarkdownProps
  Tooltip_placement :: Placement
  Tooltip_onMouseEnterDelay :: nat
  Tooltip_inline :: bool
  Tooltip_child :: "'w ButtonProps"

record 'w DivProps =
  div_data_testid :: string
  div_child :: "'w TooltipProps"

text \<open>
  The arrow function passed to the button:
  \<^verbatim>\<open>event => { if (onClick) { onClick() }  event.stopPropagation() }\<close>
  There is no \<open>try\<close> around the call: when \<open>onClick\<close> throws, the handler ends
  there and \<open>event.stopPropagation()\<close> is not reached.
\<close>

definition ToolbarAction_handleClick :: "'w callback option \<Rightarrow> 'w handler" where
  "ToolbarAction_handleClick onClick' event w =
     (case onClick' of
        None \<Rightarrow> Returns (stopPropagation event, w)
      | Some f \<Rightarrow>
          (case f w of
             Throws w1 \<Rightarrow> Throws (event, w1)
           | Returns w1 \<Rightarrow> Returns (stopPropagation event, w1)))"

definition displayLabel :: "'w ToolbarActionProps \<Rightarrow> string" where
  "displayLabel props = (if truthy (show_label props) then label props else [])"

definition ToolbarAction :: "EmotionTheme \<Rightarrow> 'w ToolbarActionProps \<Rightarrow> 'w DivProps" where
  "ToolbarAction theme props =
     \<lparr> div_data_testid = ''stElementToolbarButton'',
       div_child =
         \<lparr> Tooltip_content =
             \<lparr> source = label props,
               allowHTML = False,
               style_fontSize = fontSizes_sm theme \<rparr>,
           Tooltip_placement = TOP,
           Tooltip_onMouseEnterDelay = 1000,
           Tooltip_inline = True,
           Tooltip_child =
             \<lparr> Button_onClick = ToolbarAction_handleClick (onClick props),
               Button_kind = ELEMENT_TOOLBAR,
               Button_aria_label = label props,
               Button_children =
                 [ (case icon props of
                      None \<Rightarrow> JUndefined
                    | Some i \<Rightarrow>
                        JElement (Icon \<lparr> Icon_content = i, Icon_size = ''md'',
                                          Icon_testid = ''stElementToolbarButtonIcon'' \<rparr>)),
                   (if displayLabel props = [] then JString (displayLabel props)
                    else JElement (Span (displayLabel props))) ] \<rparr> \<rparr> \<rparr>"

text \<open>Reading the rendered tree: the button, and what React mounts inside it.\<close>

definition button_of :: "'w DivProps \<Rightarrow> 'w ButtonProps" where
  "button_of d = Tooltip_child (div_child d)"

definition button_nodes :: "'w DivProps \<Rightarrow> ButtonChild react_node list" where
  "button_nodes d = react_children (Button_children (button_of d))"

text \<open>The visible text of the button: the text nodes and the contents of the spans.\<close>

fun node_text :: "ButtonChild react_node \<Rightarrow> string list" where
  "node_text (TextNode s) = [s]"
| "node_text (ElementNode (Span s)) = [s]"
| "node_text (ElementNode (Icon i)) = []"

definition visible_text :: "'w DivProps \<Rightarrow> string list" where
  "visible_text d = concat (map node_text (button_nodes d))"

fun node_icon :: "ButtonChild react_node \<Rightarrow> EmotionIcon list" where
  "node_icon (TextNode s) = []"
| "node_icon (ElementNode (Span s)) = []"
| "node_icon (ElementNode (Icon i)) = [Icon_content i]"

definition visible_icons :: "'w DivProps \<Rightarrow> EmotionIcon list" where
  "visible_icons d = concat (map node_icon (button_nodes d))"

text \<open>
  Modelled from the spec: the platform's default tooltip trigger delay. The Tooltip
  component is not part of this file; the comment at the call and the spec both give
  the default as 200ms.
\<close>

definition Tooltip_default_onMouseEnterDelay :: nat where
  "Tooltip_default_onMouseEnterDelay = 200"

subsection \<open>Dispatching a click\<close>

text \<open>
  The runtime's bubbling phase: the handlers on the path from the clicked element
  outward run in that order, and the walk ends as soon as a handler has stopped the
  propagation of the event. An exception that a handler throws is reported by the
  runtime and does not end the walk.
\<close>

fun bubble :: "'w handler list \<Rightarrow> SyntheticEvent \<Rightarrow> 'w \<Rightarrow> SyntheticEvent \<times> 'w" where
  "bubble [] event w = (event, w)"
| "bubble (h # hs) event w =
     (case completion_state (h event w) of
        (event', w') \<Rightarrow>
          if propagationStopped event' then (event', w') else bubble hs event' w')"

text \<open>A click handler, as an ancestor may have one, that runs a callback and leaves
  the event as it is.\<close>

definition plain_handler :: "'w callback \<Rightarrow> 'w handler" where
  "plain_handler g event w =
     (case g w of Throws w1 \<Rightarrow> Throws (event, w1) | Returns w1 \<Rightarrow> Returns (event, w1))"

text \<open>A callback instrumented with a counter of its invocations.\<close>

definition counting :: "'w callback \<Rightarrow> (nat \<times> 'w) callback" where
  "counting f =
     (\<lambda>(n, w). case f w of
                  Throws w1 \<Rightarrow> Throws (Suc n, w1)
                | Returns w1 \<Rightarrow> Returns (Suc n, w1))"

subsection \<open>The ambient fullscreen context\<close>

text \<open>
  Modelled from the spec: the shape of the value that the ambient fullscreen-state
  provider exposes, \<open>{ expanded: boolean, expand: () => void, collapse: () => void }\<close>.
  Its declaration (ElementFullscreenContext) is imported, not part of this file.
  Toolbar tests the callbacks it resolves before it uses them, so the record lets a
  callback of the context be \<open>undefined\<close>; a provider of the declared shape
  supplies both (\<open>Some\<close>).
\<close>

record 'w ElementFullscreenContextShape =
  expanded :: bool
  expand :: "'w callback option"
  collapse :: "'w callback option"

datatype error = ContextNotFound

text \<open>
  Modelled from the spec: the hook \<open>useRequiredContext\<close>, imported from
  hooks/useRequiredContext and not part of this file. The spec says that rendering
  without a provider of the context "raises immediately rather than silently
  defaulting". The argument is what the nearest provider supplies, \<open>None\<close> when
  there is no provider.
\<close>

definition useRequiredContext :: "'a option \<Rightarrow> error + 'a" where
  "useRequiredContext ctx = (case ctx of None \<Rightarrow> Inl ContextNotFound | Some v \<Rightarrow> Inr v)"

subsection \<open>Toolbar\<close>

record ('w, 'c, 't) ToolbarProps =
  onExpand :: "'w callback option"
  onCollapse :: "'w callback option"
  isFullScreen :: "bool option"
  locked :: "bool option"
  children :: "'c option"
  target :: "'t option"
  disableFullscreenMode :: "bool option"

text \<open>
  What the toolbar holds: the caller's children, opaque to this component, and the
  \<open>ToolbarAction\<close> elements that the toolbar creates itself.
\<close>

datatype ('w, 'c) StyledToolbarChild =
  Children 'c
| ToolbarActionElement "'w ToolbarActionProps"

record ('w, 'c, 't) StyledToolbarWrapperProps =
  className :: string
  data_testid :: string
  Wrapper_locked :: bool
  Wrapper_target :: "'t option"
  StyledToolbar_children :: "('w, 'c) StyledToolbarChild jsx_child list"

text \<open>The three constants computed at the start of the render.\<close>

definition finalOnExpand ::
  "('w, 'c, 't) ToolbarProps \<Rightarrow> 'w ElementFullscreenContextShape \<Rightarrow> 'w callback option" where
  "finalOnExpand props c = js_or (onExpand props) (expand c)"

definition finalOnCollapse ::
  "('w, 'c, 't) ToolbarProps \<Rightarrow> 'w ElementFullscreenContextShape \<Rightarrow> 'w callback option" where
  "finalOnCollapse props c = js_or (onCollapse props) (collapse c)"

definition finalIsFullScreen ::
  "('w, 'c, 't) ToolbarProps \<Rightarrow> 'w ElementFullscreenContextShape \<Rightarrow> bool" where
  "finalIsFullScreen props c = nullish (isFullScreen props) (expanded c)"

definition Toolbar ::
  "('w, 'c, 't) ToolbarProps \<Rightarrow> 'w ElementFullscreenContextShape option
     \<Rightarrow> error + ('w, 'c, 't) StyledToolbarWrapperProps" where
  "Toolbar props ctx =
     (case useRequiredContext ctx of
        Inl e \<Rightarrow> Inl e
      | Inr c \<Rightarrow>
          Inr \<lparr> className = ''stElementToolbar'',
                data_testid = ''stElementToolbar'',
                Wrapper_locked = (truthy (locked props) \<or> finalIsFullScreen props c),
                Wrapper_target = target props,
                StyledToolbar_children =
                  [ (case children props of
                       None \<Rightarrow> JUndefined
                     | Some ch \<Rightarrow> JElement (Children ch)),
                    (case finalOnExpand props c of
                       None \<Rightarrow> JUndefined
                     | Some f \<Rightarrow>
                         if truthy (disableFullscreenMode props) then JBool False
                         else if finalIsFullScreen props c then JBool False
                         else JElement (ToolbarActionElement
                                \<lparr> label = ''Fullscreen'', icon = Some Fullscreen,
                                  show_label = None, onClick = Some (\<lambda>w. f w) \<rparr>)),
                    (case finalOnCollapse props c of
                       None \<Rightarrow> JUndefined
                     | Some f \<Rightarrow>
                         if truthy (disableFullscreenMode props) then JBool False
                         else if \<not> finalIsFullScreen props c then JBool False
                         else JElement (ToolbarActionElement
                                \<lparr> label = ''Close fullscreen'', icon = Some FullscreenExit,
                                  show_label = None, onClick = Some (\<lambda>w. f w) \<rparr>)) ] \<rparr>)"

text \<open>
  The built-in actions of a rendered toolbar: the \<open>ToolbarAction\<close> elements that
  React mounts from the toolbar's own child expressions.
\<close>

fun builtin_action ::
  "('w, 'c) StyledToolbarChild react_node \<Rightarrow> 'w ToolbarActionProps list" where
  "builtin_action (TextNode s) = []"
| "builtin_action (ElementNode (Children ch)) = []"
| "builtin_action (ElementNode (ToolbarActionElement a)) = [a]"

definition builtin_actions ::
  "('w, 'c, 't) StyledToolbarWrapperProps \<Rightarrow> 'w ToolbarActionProps list" where
  "builtin_actions out = concat (map builtin_action (react_children (StyledToolbar_children out)))"

definition Toolbar_actions ::
  "('w, 'c, 't) ToolbarProps \<Rightarrow> 'w ElementFullscreenContextShape option
     \<Rightarrow> error + 'w ToolbarActionProps list" where
  "Toolbar_actions props ctx =
     (case Toolbar props ctx of Inl e \<Rightarrow> Inl e | Inr out \<Rightarrow> Inr (builtin_actions out))"

text \<open>The two elements that the toolbar can add, for a given callback.\<close>

definition enterAction :: "'w callback option \<Rightarrow> 'w ToolbarActionProps" where
  "enterAction f =
     \<lparr> label = ''Fullscreen'', icon = Some Fullscreen, show_label = None, onClick = f \<rparr>"

definition exitAction :: "'w callback option \<Rightarrow> 'w ToolbarActionProps" where
  "exitAction f =
     \<lparr> label = ''Close fullscreen'', icon = Some FullscreenExit, show_label = None,
       onClick = f \<rparr>"

section \<open>Properties\<close>

lemma Toolbar_actions_Some:
  "Toolbar_actions props (Some c) =
     Inr ((if finalOnExpand props c \<noteq> None \<and> \<not> truthy (disableFullscreenMode props)
              \<and> \<not> finalIsFullScreen props c
           then [enterAction (finalOnExpand props c)] else [])
          @ (if finalOnCollapse props c \<noteq> None \<and> \<not> truthy (disableFullscreenMode props)
              \<and> finalIsFullScreen props c
           then [exitAction (finalOnCollapse props c)] else []))"
  by (simp add: Toolbar_actions_def Toolbar_def useRequiredContext_def builtin_actions_def
      react_children_def enterAction_def exitAction_def split: option.splits)

lemma ToolbarAction_button_nodes:
  "button_nodes (ToolbarAction theme props) =
     (case icon props of
        None \<Rightarrow> []
      | Some i \<Rightarrow>
          [ElementNode (Icon \<lparr> Icon_content = i, Icon_size = ''md'',
                                Icon_testid = ''stElementToolbarButtonIcon'' \<rparr>)])
     @ (if truthy (show_label props) \<and> label props \<noteq> [] then [ElementNode (Span (label props))]
        else [])"
  by (simp add: button_nodes_def button_of_def ToolbarAction_def react_children_def
      displayLabel_def split: option.splits)

lemma ToolbarAction_visible_text:
  "visible_text (ToolbarAction theme props) =
     (if truthy (show_label props) \<and> label props \<noteq> [] then [label props] else [])"
  by (cases "icon props") (simp_all add: visible_text_def ToolbarAction_button_nodes)

lemma ToolbarAction_visible_icons:
  "visible_icons (ToolbarAction theme props) =
     (case icon props of None \<Rightarrow> [] | Some i \<Rightarrow> [i])"
  by (cases "icon props") (simp_all add: visible_icons_def ToolbarAction_button_nodes)

lemma ToolbarAction_aria_label:
  "Button_aria_label (button_of (ToolbarAction theme props)) = label props"
  by (simp add: button_of_def ToolbarAction_def)

subsection \<open>Toolbar: which built-in action is rendered\<close>

text \<open>
  C1. Inside a provider of the fullscreen context, the built-in actions that Toolbar
  renders follow the three-branch rule on the resolved values: the enter action when
  the effective expand callback exists, fullscreen mode is not disabled and the
  element is not fullscreen; else the exit action when the effective collapse
  callback exists, fullscreen mode is not disabled and the element is fullscreen;
  else none. With disableFullscreenMode true there is no built-in action whatever the
  other props are, and there is never more than one.
\<close>

theorem Toolbar_three_branch_rule:
  "Toolbar_actions props (Some c) =
     Inr (if finalOnExpand props c \<noteq> None \<and> \<not> truthy (disableFullscreenMode props)
             \<and> \<not> finalIsFullScreen props c
          then [enterAction (finalOnExpand props c)]
          else if finalOnCollapse props c \<noteq> None \<and> \<not> truthy (disableFullscreenMode props)
             \<and> finalIsFullScreen props c
          then [exitAction (finalOnCollapse props c)]
          else [])
   \<and> Toolbar_actions (props\<lparr>disableFullscreenMode := Some True\<rparr>) (Some c) = Inr []
   \<and> (\<exists>acts. Toolbar_actions props (Some c) = Inr acts \<and> length acts \<le> 1)"
  by (simp add: Toolbar_actions_Some truthy_def)

text \<open>
  C5. If the resolved fullscreen boolean is false, an expand callback is defined and
  fullscreen mode is not disabled, Toolbar renders exactly one built-in action, and
  its label is "Fullscreen"; if the resolved boolean is true, a collapse callback is
  defined and fullscreen mode is not disabled, it renders exactly one built-in
  action, labelled "Close fullscreen".
\<close>

theorem Toolbar_exactly_one_action:
  "(\<not> finalIsFullScreen props c \<and> finalOnExpand props c = Some f
      \<and> \<not> truthy (disableFullscreenMode props)
    \<longrightarrow> Toolbar_actions props (Some c) = Inr [enterAction (Some f)]
        \<and> label (enterAction (Some f)) = ''Fullscreen'')
   \<and> (finalIsFullScreen props c \<and> finalOnCollapse props c = Some g
      \<and> \<not> truthy (disableFullscreenMode props)
    \<longrightarrow> Toolbar_actions props (Some c) = Inr [exitAction (Some g)]
        \<and> label (exitAction (Some g)) = ''Close fullscreen'')"
  by (simp add: Toolbar_actions_Some enterAction_def exitAction_def)

text \<open>
  Witness for C5: a toolbar that is not fullscreen with an expand callback, and one
  that is fullscreen (by the context) with a collapse callback, neither disabled.
\<close>

theorem Toolbar_exactly_one_action_witness:
  "\<not> finalIsFullScreen
     (\<lparr> onExpand = Some (returning Suc), onCollapse = None, isFullScreen = Some False, locked = None,
        children = None, target = None, disableFullscreenMode = Some False \<rparr>
        :: (nat, unit, unit) ToolbarProps)
     \<lparr> expanded = True, expand = Some (returning (\<lambda>n. n + 2)), collapse = Some (returning (\<lambda>n. n - 1)) \<rparr>
   \<and> finalOnExpand
     (\<lparr> onExpand = Some (returning Suc), onCollapse = None, isFullScreen = Some False, locked = None,
        children = None, target = None, disableFullscreenMode = Some False \<rparr>
        :: (nat, unit, unit) ToolbarProps)
     \<lparr> expanded = True, expand = Some (returning (\<lambda>n. n + 2)), collapse = Some (returning (\<lambda>n. n - 1)) \<rparr> = Some (returning Suc)
   \<and> \<not> truthy (disableFullscreenMode
     (\<lparr> onExpand = Some (returning Suc), onCollapse = None, isFullScreen = Some False, locked = None,
        children = None, target = None, disableFullscreenMode = Some False \<rparr>
        :: (nat, unit, unit) ToolbarProps))
   \<and> Toolbar_actions
     (\<lparr> onExpand = Some (returning Suc), onCollapse = None, isFullScreen = Some False, locked = None,
        children = None, target = None, disableFullscreenMode = Some False \<rparr>
        :: (nat, unit, unit) ToolbarProps)
     (Some \<lparr> expanded = True, expand = Some (returning (\<lambda>n. n + 2)), collapse = Some (returning (\<lambda>n. n - 1)) \<rparr>)
     = Inr [enterAction (Some (returning Suc))]
   \<and> label (enterAction (Some (returning Suc)) :: nat ToolbarActionProps) = ''Fullscreen''
   \<and> finalIsFullScreen
     (\<lparr> onExpand = None, onCollapse = Some (returning (\<lambda>n. 0)), isFullScreen = None, locked = None,
        children = None, target = None, disableFullscreenMode = None \<rparr>
        :: (nat, unit, unit) ToolbarProps)
     \<lparr> expanded = True, expand = Some (returning (\<lambda>n. n + 2)), collapse = Some (returning (\<lambda>n. n - 1)) \<rparr>
   \<and> finalOnCollapse
     (\<lparr> onExpand = None, onCollapse = Some (returning (\<lambda>n. 0)), isFullScreen = None, locked = None,
        children = None, target = None, disableFullscreenMode = None \<rparr>
        :: (nat, unit, unit) ToolbarProps)
     \<lparr> expanded = True, expand = Some (returning (\<lambda>n. n + 2)), collapse = Some (returning (\<lambda>n. n - 1)) \<rparr> = Some (returning (\<lambda>n. 0))
   \<and> \<not> truthy (disableFullscreenMode
     (\<lparr> onExpand = None, onCollapse = Some (returning (\<lambda>n. 0)), isFullScreen = None, locked = None,
        children = None, target = None, disableFullscreenMode = None \<rparr>
        :: (nat, unit, unit) ToolbarProps))
   \<and> Toolbar_actions
     (\<lparr> onExpand = None, onCollapse = Some (returning (\<lambda>n. 0)), isFullScreen = None, locked = None,
        children = None, target = None, disableFullscreenMode = None \<rparr>
        :: (nat, unit, unit) ToolbarProps)
     (Some \<lparr> expanded = True, expand = Some (returning (\<lambda>n. n + 2)), collapse = Some (returning (\<lambda>n. n - 1)) \<rparr>)
     = Inr [exitAction (Some (returning (\<lambda>n. 0)))]
   \<and> label (exitAction (Some (returning (\<lambda>n. 0))) :: nat ToolbarActionProps) = ''Close fullscreen''"
  using
    Toolbar_exactly_one_action
      [of "\<lparr> onExpand = Some (returning Suc), onCollapse = None, isFullScreen = Some False, locked = None,
              children = None, target = None, disableFullscreenMode = Some False \<rparr>
            :: (nat, unit, unit) ToolbarProps"
          "\<lparr> expanded = True, expand = Some (returning (\<lambda>n. n + 2)), collapse = Some (returning (\<lambda>n. n - 1)) \<rparr>"
          "returning Suc" "returning (\<lambda>n. 0)"]
    Toolbar_exactly_one_action
      [of "\<lparr> onExpand = None, onCollapse = Some (returning (\<lambda>n. 0)), isFullScreen = None, locked = None,
              children = None, target = None, disableFullscreenMode = None \<rparr>
            :: (nat, unit, unit) ToolbarProps"
          "\<lparr> expanded = True, expand = Some (returning (\<lambda>n. n + 2)), collapse = Some (returning (\<lambda>n. n - 1)) \<rparr>"
          "returning Suc" "returning (\<lambda>n. 0)"]
  by (simp add: finalIsFullScreen_def finalOnExpand_def finalOnCollapse_def js_or_def
      nullish_def truthy_def)

text \<open>
  C4. The effective expand callback, collapse callback and fullscreen boolean are the
  explicit props when these are given and the values of the context only when the
  prop is absent. An explicit isFullScreen of false wins over a context whose
  expanded flag is true, and so decides the action that is rendered.
\<close>

theorem Toolbar_props_take_precedence:
  "finalOnExpand (props\<lparr>onExpand := Some f\<rparr>) c = Some f
   \<and> finalOnExpand (props\<lparr>onExpand := None\<rparr>) c = expand c
   \<and> finalOnCollapse (props\<lparr>onCollapse := Some g\<rparr>) c = Some g
   \<and> finalOnCollapse (props\<lparr>onCollapse := None\<rparr>) c = collapse c
   \<and> finalIsFullScreen (props\<lparr>isFullScreen := Some b\<rparr>) c = b
   \<and> finalIsFullScreen (props\<lparr>isFullScreen := None\<rparr>) c = expanded c
   \<and> finalIsFullScreen (props\<lparr>isFullScreen := Some False\<rparr>) (c\<lparr>expanded := True\<rparr>) = False
   \<and> Toolbar_actions
         (props\<lparr>onExpand := Some f, isFullScreen := Some False, disableFullscreenMode := None\<rparr>)
         (Some (c\<lparr>expanded := True\<rparr>))
       = Inr [enterAction (Some f)]"
  by (simp add: Toolbar_actions_Some finalOnExpand_def finalOnCollapse_def
      finalIsFullScreen_def js_or_def nullish_def truthy_def)

text \<open>
  C2, as the claim states it, fails: with no onExpand prop the toolbar falls back to
  the expand callback of the context, and the "Fullscreen" action is rendered.
\<close>

theorem Toolbar_absent_onExpand_counterexample:
  "onExpand (\<lparr> onExpand = None, onCollapse = None, isFullScreen = None, locked = None,
        children = None, target = None, disableFullscreenMode = None \<rparr>
        :: (nat, unit, unit) ToolbarProps) = None
   \<and> Toolbar_actions
     (\<lparr> onExpand = None, onCollapse = None, isFullScreen = None, locked = None,
        children = None, target = None, disableFullscreenMode = None \<rparr>
        :: (nat, unit, unit) ToolbarProps)
     (Some \<lparr> expanded = False, expand = Some (returning Suc), collapse = Some (returning (\<lambda>n. n - 1)) \<rparr>)
     = Inr [\<lparr> label = ''Fullscreen'', icon = Some Fullscreen, show_label = None,
              onClick = Some (returning Suc) \<rparr>]"
  by (simp add: Toolbar_actions_Some finalOnExpand_def finalIsFullScreen_def js_or_def
      nullish_def truthy_def enterAction_def)

text \<open>
  C2, amended. An absent onExpand (respectively onCollapse) prop is replaced by the
  expand (respectively collapse) callback of the context; the built-in enter
  (respectively exit) action is not rendered when neither the prop nor the context
  supplies the callback. A ToolbarAction without an icon renders a text-only button
  when the label is displayed (show_label is true and the label is not empty) and a
  button with no content otherwise.
\<close>

theorem Toolbar_absent_callbacks:
  "Toolbar_actions (props\<lparr>onExpand := None\<rparr>) (Some (c\<lparr>expand := Some e\<rparr>)) =
     Inr (if \<not> truthy (disableFullscreenMode props) \<and> \<not> finalIsFullScreen props c
          then [enterAction (Some e)]
          else if finalOnCollapse props c \<noteq> None \<and> \<not> truthy (disableFullscreenMode props)
          then [exitAction (finalOnCollapse props c)]
          else [])
   \<and> Toolbar_actions (props\<lparr>onExpand := None\<rparr>) (Some (c\<lparr>expand := None\<rparr>)) =
     Inr (if finalOnCollapse props c \<noteq> None \<and> \<not> truthy (disableFullscreenMode props)
             \<and> finalIsFullScreen props c
          then [exitAction (finalOnCollapse props c)]
          else [])
   \<and> Toolbar_actions (props\<lparr>onCollapse := None\<rparr>) (Some (c\<lparr>collapse := Some e\<rparr>)) =
     Inr (if finalOnExpand props c \<noteq> None \<and> \<not> truthy (disableFullscreenMode props)
             \<and> \<not> finalIsFullScreen props c
          then [enterAction (finalOnExpand props c)]
          else if \<not> truthy (disableFullscreenMode props) \<and> finalIsFullScreen props c
          then [exitAction (Some e)]
          else [])
   \<and> Toolbar_actions (props\<lparr>onCollapse := None\<rparr>) (Some (c\<lparr>collapse := None\<rparr>)) =
     Inr (if finalOnExpand props c \<noteq> None \<and> \<not> truthy (disableFullscreenMode props)
             \<and> \<not> finalIsFullScreen props c
          then [enterAction (finalOnExpand props c)]
          else [])
   \<and> button_nodes (ToolbarAction theme (a\<lparr>icon := None\<rparr>)) =
       (if truthy (show_label a) \<and> label a \<noteq> [] then [ElementNode (Span (label a))] else [])"
  by (simp add: Toolbar_actions_Some ToolbarAction_button_nodes finalOnExpand_def
      finalOnCollapse_def finalIsFullScreen_def js_or_def)

text \<open>
  C3. Rendering Toolbar where no provider of the fullscreen context is present
  raises the configuration error, whatever the props are; inside a provider the
  render returns an element and raises nothing.
\<close>

theorem Toolbar_without_context_raises:
  "Toolbar props None = Inl ContextNotFound \<and> \<not> isl (Toolbar props (Some c))"
  by (simp add: Toolbar_def useRequiredContext_def)

text \<open>
  C9. The context is read before anything else: with explicit onExpand, onCollapse
  and isFullScreen props, for which no value of the context is used (the rendered
  element is the same in every context), rendering outside a provider still raises
  the configuration error.
\<close>

theorem Toolbar_reads_context_unconditionally:
  "Toolbar (props\<lparr>onExpand := Some f, onCollapse := Some g, isFullScreen := Some b\<rparr>) None
     = Inl ContextNotFound
   \<and> Toolbar (props\<lparr>onExpand := Some f, onCollapse := Some g, isFullScreen := Some b\<rparr>) (Some c)
     = Toolbar (props\<lparr>onExpand := Some f, onCollapse := Some g, isFullScreen := Some b\<rparr>) (Some c')"
  by (simp add: Toolbar_def useRequiredContext_def finalOnExpand_def finalOnCollapse_def
      finalIsFullScreen_def js_or_def nullish_def)

subsection \<open>ToolbarAction: the button and its tooltip\<close>

text \<open>
  C6, as the claim states it, fails: when the onClick callback throws, the handler
  ends with the exception before it stops the propagation, and the click bubbles on
  to the handler of an ancestor (which here moves the world from 0 to 1).
\<close>

theorem ToolbarAction_click_throwing_counterexample:
  "Button_onClick
     (button_of (ToolbarAction \<lparr> fontSizes_sm = ''14px'' \<rparr>
        (\<lparr> label = ''Fullscreen'', icon = Some Fullscreen, show_label = None,
             onClick = Some Throws \<rparr> :: nat ToolbarActionProps)))
     \<lparr> propagationStopped = False \<rparr> 0
     = Throws (\<lparr> propagationStopped = False \<rparr>, 0)
   \<and> bubble
     [ Button_onClick
         (button_of (ToolbarAction \<lparr> fontSizes_sm = ''14px'' \<rparr>
            (\<lparr> label = ''Fullscreen'', icon = Some Fullscreen, show_label = None,
             onClick = Some Throws \<rparr> :: nat ToolbarActionProps))),
       plain_handler (returning Suc) ]
     \<lparr> propagationStopped = False \<rparr> 0
     = (\<lparr> propagationStopped = False \<rparr>, 1)"
  by (simp add: button_of_def ToolbarAction_def ToolbarAction_handleClick_def
      plain_handler_def returning_def)

text \<open>
  C6, amended. A click on a ToolbarAction whose onClick callback returns runs that
  callback once (the world after the click is the world the one call returned; a
  counter kept by the callback goes up by one) and then leaves the event with its
  propagation stopped, so that no handler of an ancestor runs when the click bubbles.
\<close>

theorem ToolbarAction_click_returning_callback:
  "f w = Returns w' \<longrightarrow>
     Button_onClick
       (button_of (ToolbarAction theme \<lparr> label = l, icon = i, show_label = s, onClick = Some f \<rparr>))
       event w
       = Returns (event\<lparr>propagationStopped := True\<rparr>, w')
     \<and> Button_onClick
       (button_of (ToolbarAction theme
          \<lparr> label = l, icon = i, show_label = s, onClick = Some (counting f) \<rparr>))
       event (n, w)
       = Returns (event\<lparr>propagationStopped := True\<rparr>, (Suc n, w'))
     \<and> bubble
       (Button_onClick
          (button_of (ToolbarAction theme \<lparr> label = l, icon = i, show_label = s, onClick = Some f \<rparr>))
          # ancestors)
       event w
       = (event\<lparr>propagationStopped := True\<rparr>, w')"
  by (simp add: button_of_def ToolbarAction_def ToolbarAction_handleClick_def
      stopPropagation_def counting_def)

text \<open>
  Witness for C6: a callback that adds one to the world and returns, clicked in the
  world 0 under an ancestor whose own handler would add one more.
\<close>

theorem ToolbarAction_click_returning_callback_witness:
  "returning Suc (0::nat) = Returns 1
   \<and> Button_onClick
     (button_of (ToolbarAction \<lparr> fontSizes_sm = ''14px'' \<rparr>
        (\<lparr> label = ''Fullscreen'', icon = Some Fullscreen, show_label = None,
             onClick = Some (returning Suc) \<rparr> :: nat ToolbarActionProps)))
     \<lparr> propagationStopped = False \<rparr> 0
     = Returns (\<lparr> propagationStopped = True \<rparr>, 1)
   \<and> Button_onClick
     (button_of (ToolbarAction \<lparr> fontSizes_sm = ''14px'' \<rparr>
        (\<lparr> label = ''Fullscreen'', icon = Some Fullscreen, show_label = None,
             onClick = Some (counting (returning Suc)) \<rparr> :: (nat \<times> nat) ToolbarActionProps)))
     \<lparr> propagationStopped = False \<rparr> (0, 0)
     = Returns (\<lparr> propagationStopped = True \<rparr>, (1, 1))
   \<and> bubble
     [ Button_onClick
         (button_of (ToolbarAction \<lparr> fontSizes_sm = ''14px'' \<rparr>
            (\<lparr> label = ''Fullscreen'', icon = Some Fullscreen, show_label = None,
             onClick = Some (returning Suc) \<rparr> :: nat ToolbarActionProps))),
       plain_handler (returning Suc) ]
     \<lparr> propagationStopped = False \<rparr> 0
     = (\<lparr> propagationStopped = True \<rparr>, 1)"
  using ToolbarAction_click_returning_callback
    [of "returning Suc" "0::nat" 1 "\<lparr> fontSizes_sm = ''14px'' \<rparr>" "''Fullscreen''"
        "Some Fullscreen" None "\<lparr> propagationStopped = False \<rparr>" 0
        "[plain_handler (returning Suc)]"]
  by (simp add: returning_def)

text \<open>
  C7, as the claim states it, fails: with show_label true and an empty label, the
  button has no visible text at all.
\<close>

theorem ToolbarAction_show_label_counterexample:
  "truthy (show_label (\<lparr> label = [], icon = Some Fullscreen, show_label = Some True,
        onClick = Some (returning Suc) \<rparr> :: nat ToolbarActionProps))
   \<and> button_nodes (ToolbarAction \<lparr> fontSizes_sm = ''14px'' \<rparr>
        (\<lparr> label = [], icon = Some Fullscreen, show_label = Some True,
           onClick = Some (returning Suc) \<rparr> :: nat ToolbarActionProps))
     = [ElementNode (Icon \<lparr> Icon_content = Fullscreen, Icon_size = ''md'',
                           Icon_testid = ''stElementToolbarButtonIcon'' \<rparr>)]
   \<and> visible_text (ToolbarAction \<lparr> fontSizes_sm = ''14px'' \<rparr>
        (\<lparr> label = [], icon = Some Fullscreen, show_label = Some True,
           onClick = Some (returning Suc) \<rparr> :: nat ToolbarActionProps))
     = []"
  by (simp add: ToolbarAction_visible_text ToolbarAction_button_nodes truthy_def)

text \<open>
  C7, amended. The aria-label of the button is the label whatever show_label is. The
  label is rendered as visible text if and only if show_label is true and the label
  is not empty. When show_label is false or absent, the button holds the icon (if
  there is one) and nothing else.
\<close>

theorem ToolbarAction_label_rendering:
  "Button_aria_label (button_of (ToolbarAction theme props)) = label props
   \<and> visible_text (ToolbarAction theme props) =
       (if truthy (show_label props) \<and> label props \<noteq> [] then [label props] else [])
   \<and> visible_icons (ToolbarAction theme props) =
       (case icon props of None \<Rightarrow> [] | Some i \<Rightarrow> [i])
   \<and> button_nodes (ToolbarAction theme (props\<lparr>show_label := Some False\<rparr>)) =
       (case icon props of
          None \<Rightarrow> []
        | Some i \<Rightarrow>
            [ElementNode (Icon \<lparr> Icon_content = i, Icon_size = ''md'',
                                  Icon_testid = ''stElementToolbarButtonIcon'' \<rparr>)])
   \<and> button_nodes (ToolbarAction theme (props\<lparr>show_label := None\<rparr>)) =
       button_nodes (ToolbarAction theme (props\<lparr>show_label := Some False\<rparr>))"
  by (simp add: ToolbarAction_aria_label ToolbarAction_visible_text
      ToolbarAction_visible_icons ToolbarAction_button_nodes truthy_def)

text \<open>
  C8. The content of the tooltip is the label given to the markdown renderer with
  HTML disabled, and the delay before the tooltip shows is 1000ms, more than the
  default of 200ms.
\<close>

theorem ToolbarAction_tooltip:
  "Tooltip_content (div_child (ToolbarAction theme props)) =
     \<lparr> source = label props, allowHTML = False, style_fontSize = fontSizes_sm theme \<rparr>
   \<and> Tooltip_onMouseEnterDelay (div_child (ToolbarAction theme props)) = 1000
   \<and> Tooltip_default_onMouseEnterDelay
       < Tooltip_onMouseEnterDelay (div_child (ToolbarAction theme props))"
  by (simp add: ToolbarAction_def Tooltip_default_onMouseEnterDelay_def)

text \<open>
  C10. With an empty label and show_label true, the button has no visible text: it
  holds what it holds with show_label false, the icon if there is one. Its
  aria-label is the empty string.
\<close>

theorem ToolbarAction_empty_label:
  "visible_text (ToolbarAction theme
      \<lparr> label = [], icon = i, show_label = Some True, onClick = f \<rparr>) = []
   \<and> button_nodes (ToolbarAction theme
      \<lparr> label = [], icon = i, show_label = Some True, onClick = f \<rparr>)
     = button_nodes (ToolbarAction theme
      \<lparr> label = [], icon = i, show_label = Some False, onClick = f \<rparr>)
   \<and> Button_aria_label (button_of (ToolbarAction theme
      \<lparr> label = [], icon = i, show_label = Some True, onClick = f \<rparr>)) = []"
  by (simp add: ToolbarAction_aria_label ToolbarAction_visible_text
      ToolbarAction_button_nodes truthy_def)

end
